theory Spec2Isabelle
  imports Main "HOL-Library.Log_Nat"
begin

section \<open>JavaScript values\<close>

text \<open>
  The handlers of \<^verbatim>\<open>server.js\<close> read their arguments out of a JSON request body, so a
  field can hold any JSON value or be absent. A JavaScript number is an IEEE-754 double:
  a finite double is modelled by the rational it denotes (the sign of zero is dropped:
  \<^verbatim>\<open>-0 || 0\<close> is \<^verbatim>\<open>0\<close>, \<^verbatim>\<open>-0 === 0\<close> holds and \<^verbatim>\<open>String(-0)\<close> is \<^verbatim>\<open>"0"\<close>).
\<close>

datatype number = NaN | PosInf | NegInf | Fin rat

datatype jsval =
    JUndefined
  | JNull
  | JBool bool
  | JNum number
  | JStr string
  | JArr "jsval list"
  | JObj "(string \<times> jsval) list"

text \<open>Truthiness, as tested by \<^verbatim>\<open>!v\<close> and \<^verbatim>\<open>v || d\<close>.\<close>

fun truthy :: "jsval \<Rightarrow> bool" where
  "truthy JUndefined = False"
| "truthy JNull = False"
| "truthy (JBool b) = b"
| "truthy (JNum n) = (n \<noteq> NaN \<and> n \<noteq> Fin 0)"
| "truthy (JStr s) = (s \<noteq> [])"
| "truthy (JArr xs) = True"
| "truthy (JObj kvs) = True"

definition js_or :: "jsval \<Rightarrow> jsval \<Rightarrow> jsval" where
  "js_or a b = (if truthy a then a else b)"

text \<open>
  Strict equality \<^verbatim>\<open>===\<close>. Primitives compare by value (\<^verbatim>\<open>NaN\<close> equals nothing).
  Arrays and objects compare by reference; every comparison in the handlers is between a
  value stored by an earlier request and a value parsed from the current request body,
  which are distinct references, so two arrays or two objects are never equal here.
\<close>

fun strict_eq :: "jsval \<Rightarrow> jsval \<Rightarrow> bool" where
  "strict_eq JUndefined JUndefined = True"
| "strict_eq JNull JNull = True"
| "strict_eq (JBool a) (JBool b) = (a = b)"
| "strict_eq (JNum a) (JNum b) = (a \<noteq> NaN \<and> a = b)"
| "strict_eq (JStr a) (JStr b) = (a = b)"
| "strict_eq _ _ = False"

subsection \<open>Double arithmetic\<close>

definition pow2 :: "int \<Rightarrow> rat" where
  "pow2 k = (if 0 \<le> k then 2 ^ nat k else 1 / 2 ^ nat (- k))"

text \<open>The binary exponent of a non-zero rational: \<open>pow2 e \<le> \<bar>q\<bar> < pow2 (e + 1)\<close>.\<close>

definition floor_log2 :: "rat \<Rightarrow> int" where
  "floor_log2 q =
     (let (a, b) = quotient_of \<bar>q\<bar>; d = bitlen a - bitlen b
      in if pow2 d \<le> \<bar>q\<bar> then d else d - 1)"

definition round_half_even :: "rat \<Rightarrow> int" where
  "round_half_even q =
     (let f = \<lfloor>q\<rfloor>; d = q - of_int f
      in if d < 1 / 2 then f else if 1 / 2 < d then f + 1 else if even f then f else f + 1)"

text \<open>
  Rounding an exact result to the nearest double, ties to even: 53 significant bits,
  least exponent \<open>-1074\<close> (subnormals), overflow to an infinity from \<open>2^1024\<close> on.
\<close>

definition to_double :: "rat \<Rightarrow> number" where
  "to_double q =
     (if q = 0 then Fin 0
      else let p = max (floor_log2 q - 52) (- 1074);
               r = of_int (round_half_even (q / pow2 p)) * pow2 p
           in if 2 ^ 1024 \<le> r then PosInf else if r \<le> - (2 ^ 1024) then NegInf else Fin r)"

definition is_double :: "rat \<Rightarrow> bool" where
  "is_double q = (to_double q = Fin q)"

text \<open>The operator \<^verbatim>\<open>*\<close> on numbers.\<close>

fun js_times :: "number \<Rightarrow> number \<Rightarrow> number" where
  "js_times NaN y = NaN"
| "js_times x NaN = NaN"
| "js_times (Fin a) (Fin b) = to_double (a * b)"
| "js_times (Fin a) PosInf = (if a = 0 then NaN else if 0 < a then PosInf else NegInf)"
| "js_times (Fin a) NegInf = (if a = 0 then NaN else if 0 < a then NegInf else PosInf)"
| "js_times PosInf (Fin b) = (if b = 0 then NaN else if 0 < b then PosInf else NegInf)"
| "js_times NegInf (Fin b) = (if b = 0 then NaN else if 0 < b then NegInf else PosInf)"
| "js_times PosInf PosInf = PosInf"
| "js_times PosInf NegInf = NegInf"
| "js_times NegInf PosInf = NegInf"
| "js_times NegInf NegInf = PosInf"

text \<open>
  \<^verbatim>\<open>Math.round\<close>: the integer closest to the argument, the one closer to \<open>+\<infinity>\<close> on a tie,
  which is \<open>\<lfloor>q + 1/2\<rfloor>\<close>, the \<^const>\<open>round\<close> of HOL; \<^verbatim>\<open>NaN\<close> and the infinities are
  returned as they are.
\<close>

fun Math_round :: "number \<Rightarrow> number" where
  "Math_round (Fin q) = Fin (of_int (round q))"
| "Math_round x = x"

text \<open>
  \<^verbatim>\<open>function toMutez(xtz) { return Math.round(Number(xtz || 0) * 1_000_000); }\<close>
  Its only caller passes a value whose \<^verbatim>\<open>typeof\<close> is \<^verbatim>\<open>'number'\<close>, on which
  \<^verbatim>\<open>Number\<close> is the identity.
\<close>

definition toMutez :: "number \<Rightarrow> number" where
  "toMutez xtz =
     Math_round (js_times (if truthy (JNum xtz) then xtz else Fin 0) (Fin 1000000))"

section \<open>The job store\<close>

type_synonym timestamp = string

datatype status = OPEN | ACCEPTED | FUNDED | SUBMITTED | DISPUTED | RELEASED

fun status_name :: "status \<Rightarrow> string" where
  "status_name OPEN = ''OPEN''"
| "status_name ACCEPTED = ''ACCEPTED''"
| "status_name FUNDED = ''FUNDED''"
| "status_name SUBMITTED = ''SUBMITTED''"
| "status_name DISPUTED = ''DISPUTED''"
| "status_name RELEASED = ''RELEASED''"

record escrow_rec =
  deposited :: number
  opHashes :: "jsval list"

record submission_rec =
  workUrl :: jsval
  submitted_at :: timestamp

record dispute_rec =
  dispute_by :: jsval
  reason :: jsval
  disputed_at :: timestamp

record release_rec =
  opHash :: jsval
  released_at :: timestamp

text \<open>
  A job as \<^verbatim>\<open>POST /api/jobs\<close> builds it. The properties \<^verbatim>\<open>submission\<close>,
  \<^verbatim>\<open>dispute\<close> and \<^verbatim>\<open>release\<close> are absent until a handler assigns them.
\<close>

record job =
  job_id :: string
  title :: jsval
  description :: jsval
  amountMutez :: number
  currency :: string
  clientAddress :: jsval
  freelancerAddress :: jsval
  status :: status
  createdAt :: timestamp
  updatedAt :: timestamp
  escrow :: escrow_rec
  submission :: "submission_rec option"
  dispute :: "dispute_rec option"
  release :: "release_rec option"

text \<open>
  \<^verbatim>\<open>let jobs = loadDB()\<close>: the in-memory object from identifiers to jobs. A handler
  mutates the job it looked up in place, which the model writes as an update of the
  store at that identifier. \<^verbatim>\<open>saveDB\<close> writes a snapshot of the object to a file and
  swallows every error of the write; it is called on the success paths only and never
  changes the object, so it does not appear in the model. The keys of the store are the
  identifiers under which \<^verbatim>\<open>POST /api/jobs\<close> has stored a job; the property names that
  every JavaScript object inherits are not among them.
\<close>

type_synonym store = "string \<rightharpoonup> job"

record instruction =
  kind :: string
  destination :: jsval
  amount :: jsval

text \<open>
  A response: \<^verbatim>\<open>res.status(c).json({ message })\<close> is \<open>Error c message\<close>; the others
  are the bodies sent with status 200. The field \<open>amount\<close> of an instruction holds the
  number that the source serialises with \<^verbatim>\<open>String\<close>.
\<close>

datatype response =
    Error nat string
  | Created string job
  | Found job
  | Ok job
  | OperationDetails "instruction list"

section \<open>The handlers\<close>

text \<open>
  Each handler takes what it reads from its environment as arguments: the fields it
  destructures from the request body, the path parameter \<^verbatim>\<open>:id\<close>, the values returned
  by its calls of \<^verbatim>\<open>now()\<close> in the order of the calls, and the store. It returns the
  response and the store after the call.
\<close>

text \<open>\<^verbatim>\<open>POST /api/jobs\<close>; \<open>new_id\<close> is the result of \<^verbatim>\<open>crypto.randomBytes(4).toString('hex')\<close>.\<close>

definition create_job ::
  "string \<Rightarrow> timestamp \<Rightarrow> timestamp \<Rightarrow> jsval \<Rightarrow> jsval \<Rightarrow> jsval \<Rightarrow> jsval \<Rightarrow> store
     \<Rightarrow> response \<times> store" where
  "create_job new_id t1 t2 title' amountMutez' clientAddress' description' jobs =
     (case amountMutez' of
        JNum n \<Rightarrow>
          if \<not> truthy title' \<or> \<not> truthy clientAddress'
          then (Error 400 ''title, amountMutez, clientAddress are required'', jobs)
          else
            let j = \<lparr> job_id = new_id,
                      title = title',
                      description = js_or description' (JStr []),
                      amountMutez = n,
                      currency = ''XTZ'',
                      clientAddress = clientAddress',
                      freelancerAddress = JNull,
                      status = OPEN,
                      createdAt = t1,
                      updatedAt = t2,
                      escrow = \<lparr> deposited = Fin 0, opHashes = [] \<rparr>,
                      submission = None,
                      dispute = None,
                      release = None \<rparr>
            in (Created new_id j, jobs(new_id \<mapsto> j))
      | _ \<Rightarrow> (Error 400 ''title, amountMutez, clientAddress are required'', jobs))"

text \<open>\<^verbatim>\<open>GET /api/jobs/:id\<close>\<close>

definition get_job :: "string \<Rightarrow> store \<Rightarrow> response \<times> store" where
  "get_job jid jobs =
     (case jobs jid of
        None \<Rightarrow> (Error 404 ''Job not found'', jobs)
      | Some j \<Rightarrow> (Found j, jobs))"

text \<open>\<^verbatim>\<open>POST /api/jobs/:id/accept\<close>\<close>

definition accept :: "string \<Rightarrow> timestamp \<Rightarrow> jsval \<Rightarrow> store \<Rightarrow> response \<times> store" where
  "accept jid t freelancerPkh jobs =
     (case jobs jid of
        None \<Rightarrow> (Error 404 ''Job not found'', jobs)
      | Some j \<Rightarrow>
          if \<not> truthy freelancerPkh then (Error 400 ''freelancerPkh is required'', jobs)
          else if status j \<noteq> OPEN
          then (Error 400 (''Cannot accept job in status '' @ status_name (status j)), jobs)
          else
            let j' = j\<lparr> freelancerAddress := freelancerPkh, status := ACCEPTED, updatedAt := t \<rparr>
            in (Ok j', jobs(jid \<mapsto> j')))"

text \<open>\<^verbatim>\<open>POST /api/jobs/:id/submit\<close>\<close>

definition submit ::
  "string \<Rightarrow> timestamp \<Rightarrow> timestamp \<Rightarrow> jsval \<Rightarrow> jsval \<Rightarrow> store \<Rightarrow> response \<times> store" where
  "submit jid t1 t2 freelancerPkh workUrl' jobs =
     (case jobs jid of
        None \<Rightarrow> (Error 404 ''Job not found'', jobs)
      | Some j \<Rightarrow>
          if \<not> truthy freelancerPkh \<or> \<not> truthy workUrl'
          then (Error 400 ''freelancerPkh and workUrl are required'', jobs)
          else if \<not> strict_eq (freelancerAddress j) freelancerPkh
          then (Error 403 ''Only assigned freelancer can submit'', jobs)
          else if status j \<notin> {ACCEPTED, FUNDED}
          then (Error 400 (''Cannot submit in status '' @ status_name (status j)), jobs)
          else
            let j' = j\<lparr> submission := Some \<lparr> workUrl = workUrl', submitted_at = t1 \<rparr>,
                        status := SUBMITTED, updatedAt := t2 \<rparr>
            in (Ok j', jobs(jid \<mapsto> j')))"

text \<open>\<^verbatim>\<open>POST /api/jobs/:id/dispute\<close>\<close>

definition dispute_job ::
  "string \<Rightarrow> timestamp \<Rightarrow> timestamp \<Rightarrow> jsval \<Rightarrow> jsval \<Rightarrow> store \<Rightarrow> response \<times> store" where
  "dispute_job jid t1 t2 pkh reason' jobs =
     (case jobs jid of
        None \<Rightarrow> (Error 404 ''Job not found'', jobs)
      | Some j \<Rightarrow>
          if \<not> truthy pkh \<or> \<not> truthy reason'
          then (Error 400 ''pkh and reason are required'', jobs)
          else
            let j' = j\<lparr> dispute := Some \<lparr> dispute_by = pkh, reason = reason', disputed_at = t1 \<rparr>,
                        status := DISPUTED, updatedAt := t2 \<rparr>
            in (Ok j', jobs(jid \<mapsto> j')))"

text \<open>
  \<^verbatim>\<open>POST /api/jobs/:id/deposit/prepare\<close>; \<open>ESCROW_ADDRESS\<close> is
  \<^verbatim>\<open>process.env.ESCROW_ADDRESS\<close>, a string or undefined.
\<close>

definition deposit_prepare ::
  "string option \<Rightarrow> string \<Rightarrow> jsval \<Rightarrow> jsval \<Rightarrow> store \<Rightarrow> response \<times> store" where
  "deposit_prepare ESCROW_ADDRESS jid fromPkh amountTez jobs =
     (case jobs jid of
        None \<Rightarrow> (Error 404 ''Job not found'', jobs)
      | Some j \<Rightarrow>
          (case amountTez of
             JNum x \<Rightarrow>
               if \<not> truthy fromPkh then (Error 400 ''fromPkh and amountTez are required'', jobs)
               else if \<not> strict_eq (clientAddress j) fromPkh
               then (Error 403 ''Only client can deposit'', jobs)
               else
                 let amountMutez' = toMutez x
                 in (case ESCROW_ADDRESS of
                       None \<Rightarrow> (Error 400 ''ESCROW_ADDRESS not configured on server (.env)'', jobs)
                     | Some a \<Rightarrow>
                         if a = []
                         then (Error 400 ''ESCROW_ADDRESS not configured on server (.env)'', jobs)
                         else (OperationDetails
                                 [\<lparr> kind = ''transaction'', destination = JStr a,
                                    amount = JNum amountMutez' \<rparr>], jobs))
           | _ \<Rightarrow> (Error 400 ''fromPkh and amountTez are required'', jobs)))"

text \<open>\<^verbatim>\<open>POST /api/jobs/:id/deposit/confirm\<close>\<close>

definition deposit_confirm ::
  "string \<Rightarrow> timestamp \<Rightarrow> jsval \<Rightarrow> jsval \<Rightarrow> store \<Rightarrow> response \<times> store" where
  "deposit_confirm jid t fromPkh opHash' jobs =
     (case jobs jid of
        None \<Rightarrow> (Error 404 ''Job not found'', jobs)
      | Some j \<Rightarrow>
          if \<not> truthy fromPkh \<or> \<not> truthy opHash'
          then (Error 400 ''fromPkh and opHash are required'', jobs)
          else if \<not> strict_eq (clientAddress j) fromPkh
          then (Error 403 ''Only client can confirm'', jobs)
          else
            let j' = j\<lparr> escrow := \<lparr> deposited = amountMutez j,
                                     opHashes = opHashes (escrow j) @ [opHash'] \<rparr>,
                        status := FUNDED, updatedAt := t \<rparr>
            in (Ok j', jobs(jid \<mapsto> j')))"

text \<open>\<^verbatim>\<open>POST /api/jobs/:id/release/prepare\<close>\<close>

definition release_prepare :: "string \<Rightarrow> jsval \<Rightarrow> store \<Rightarrow> response \<times> store" where
  "release_prepare jid clientPkh jobs =
     (case jobs jid of
        None \<Rightarrow> (Error 404 ''Job not found'', jobs)
      | Some j \<Rightarrow>
          if \<not> truthy clientPkh then (Error 400 ''clientPkh is required'', jobs)
          else if \<not> strict_eq (clientAddress j) clientPkh
          then (Error 403 ''Only client can release'', jobs)
          else if \<not> truthy (freelancerAddress j)
          then (Error 400 ''No freelancer assigned'', jobs)
          else if status j \<noteq> SUBMITTED \<and> status j \<noteq> FUNDED
          then (Error 400 (''Cannot release in status '' @ status_name (status j)), jobs)
          else (OperationDetails
                  [\<lparr> kind = ''transaction'', destination = freelancerAddress j,
                     amount = JNum (amountMutez j) \<rparr>], jobs))"

text \<open>\<^verbatim>\<open>POST /api/jobs/:id/release/confirm\<close>\<close>

definition release_confirm ::
  "string \<Rightarrow> timestamp \<Rightarrow> timestamp \<Rightarrow> jsval \<Rightarrow> jsval \<Rightarrow> store \<Rightarrow> response \<times> store" where
  "release_confirm jid t1 t2 clientPkh opHash' jobs =
     (case jobs jid of
        None \<Rightarrow> (Error 404 ''Job not found'', jobs)
      | Some j \<Rightarrow>
          if \<not> truthy clientPkh \<or> \<not> truthy opHash'
          then (Error 400 ''clientPkh and opHash are required'', jobs)
          else if \<not> strict_eq (clientAddress j) clientPkh
          then (Error 403 ''Only client can confirm'', jobs)
          else
            let j' = j\<lparr> status := RELEASED, updatedAt := t1,
                        release := Some \<lparr> opHash = opHash', released_at = t2 \<rparr> \<rparr>
            in (Ok j', jobs(jid \<mapsto> j')))"

section \<open>Requests and runs\<close>

datatype action =
    Create string timestamp timestamp jsval jsval jsval jsval
  | Get string
  | Accept string timestamp jsval
  | Submit string timestamp timestamp jsval jsval
  | Dispute string timestamp timestamp jsval jsval
  | DepositPrepare string jsval jsval
  | DepositConfirm string timestamp jsval jsval
  | ReleasePrepare string jsval
  | ReleaseConfirm string timestamp timestamp jsval jsval

fun handle :: "string option \<Rightarrow> action \<Rightarrow> store \<Rightarrow> response \<times> store" where
  "handle env (Create i t1 t2 ti am cl de) jobs = create_job i t1 t2 ti am cl de jobs"
| "handle env (Get i) jobs = get_job i jobs"
| "handle env (Accept i t f) jobs = accept i t f jobs"
| "handle env (Submit i t1 t2 f w) jobs = submit i t1 t2 f w jobs"
| "handle env (Dispute i t1 t2 p r) jobs = dispute_job i t1 t2 p r jobs"
| "handle env (DepositPrepare i p x) jobs = deposit_prepare env i p x jobs"
| "handle env (DepositConfirm i t p h) jobs = deposit_confirm i t p h jobs"
| "handle env (ReleasePrepare i p) jobs = release_prepare i p jobs"
| "handle env (ReleaseConfirm i t1 t2 p h) jobs = release_confirm i t1 t2 p h jobs"

text \<open>
  The server handles one request to completion before the next; a run answers a list of
  requests in order.
\<close>

fun run :: "string option \<Rightarrow> action list \<Rightarrow> store \<Rightarrow> response list \<times> store" where
  "run env [] jobs = ([], jobs)"
| "run env (a # as) jobs =
     (let (r, jobs') = handle env a jobs; (rs, jobs'') = run env as jobs'
      in (r # rs, jobs''))"

fun is_error :: "response \<Rightarrow> bool" where
  "is_error (Error c m) = True"
| "is_error r = False"

section \<open>Counting confirmed deposits\<close>

text \<open>
  The number of deposit confirmations that succeeded on the job stored under an
  identifier, read off the requests of a run and their responses: a successful creation
  under the identifier stores a new job and starts the count again, a successful
  deposit-confirm on the identifier adds one.
\<close>

fun count_step :: "string \<Rightarrow> action \<Rightarrow> response \<Rightarrow> nat \<Rightarrow> nat" where
  "count_step jid (Create i t1 t2 ti am cl de) (Created i' j) n = (if i = jid then 0 else n)"
| "count_step jid (DepositConfirm i t p h) (Ok j) n = (if i = jid then Suc n else n)"
| "count_step jid a r n = n"

fun confirmed_from :: "string \<Rightarrow> action list \<Rightarrow> response list \<Rightarrow> nat \<Rightarrow> nat" where
  "confirmed_from jid (a # as) (r # rs) n = confirmed_from jid as rs (count_step jid a r n)"
| "confirmed_from jid as rs n = n"

definition confirmed_deposits :: "string \<Rightarrow> action list \<Rightarrow> response list \<Rightarrow> nat" where
  "confirmed_deposits jid as rs = confirmed_from jid as rs 0"

text \<open>The escrow of a job on which \<open>n\<close> deposit confirmations have succeeded.\<close>

definition deposit_ok :: "nat \<Rightarrow> job \<Rightarrow> bool" where
  "deposit_ok n j =
     (length (opHashes (escrow j)) = n
      \<and> deposited (escrow j) = (if n = 0 then Fin 0 else amountMutez j))"

text \<open>
  The requests of the examples below: a client \<open>tz1client\<close> opens the job \<open>j1\<close> for
  5000000 mutez, a freelancer \<open>tz1worker\<close> accepts it.
\<close>

abbreviation ex_create :: action where
  "ex_create \<equiv>
     Create ''j1'' ''t0'' ''t0'' (JStr ''Logo'') (JNum (Fin 5000000)) (JStr ''tz1client'')
       JUndefined"

abbreviation ex_accept :: action where
  "ex_accept \<equiv> Accept ''j1'' ''t1'' (JStr ''tz1worker'')"

abbreviation ex_deposit_confirm :: action where
  "ex_deposit_confirm \<equiv> DepositConfirm ''j1'' ''t2'' (JStr ''tz1client'') (JStr ''op1'')"

abbreviation ex_submit :: action where
  "ex_submit \<equiv> Submit ''j1'' ''t3'' ''t3'' (JStr ''tz1worker'') (JStr ''ipfs://work'')"

abbreviation ex_release_confirm :: action where
  "ex_release_confirm \<equiv>
     ReleaseConfirm ''j1'' ''t4'' ''t4'' (JStr ''tz1client'') (JStr ''op2'')"

section \<open>Basic facts\<close>

lemmas handler_defs =
  create_job_def get_job_def accept_def submit_def dispute_job_def
  deposit_prepare_def deposit_confirm_def release_prepare_def release_confirm_def

lemma strict_eq_imp_eq: "strict_eq a b \<Longrightarrow> a = b"
  by (cases a; cases b) simp_all

section \<open>Double arithmetic: the exponent and the rounding\<close>

lemma pow2_powi: "pow2 k = 2 powi k"
  by (simp add: pow2_def power_int_def power_one_over)

lemma pow2_pos: "0 < pow2 k"
  by (simp add: pow2_def)

lemma pow2_add: "pow2 (a + b) = pow2 a * pow2 b"
  by (simp add: pow2_powi power_int_add)

lemma pow2_le: "a \<le> b \<Longrightarrow> pow2 a \<le> pow2 b"
  by (simp add: pow2_powi power_int_increasing)

lemma bitlen_pow2_bounds:
  assumes "0 < a"
  shows "pow2 (bitlen a - 1) \<le> of_int a" and "of_int a < pow2 (bitlen a)"
proof -
  have ge: "1 \<le> bitlen a" using assms by (simp add: bitlen_alt_def)
  have "(2::int) ^ nat (bitlen a - 1) \<le> a" and "a < 2 ^ nat (bitlen a)"
    using bitlen_bounds [OF assms] by simp_all
  then have "(of_int ((2::int) ^ nat (bitlen a - 1)) :: rat) \<le> of_int a"
    and "(of_int a :: rat) < of_int (2 ^ nat (bitlen a))"
    by (simp_all only: of_int_le_iff of_int_less_iff)
  then show "pow2 (bitlen a - 1) \<le> of_int a" and "of_int a < pow2 (bitlen a)"
    using ge by (simp_all add: pow2_def)
qed

lemma floor_log2_bounds:
  assumes "q \<noteq> 0"
  shows "pow2 (floor_log2 q) \<le> \<bar>q\<bar>" and "\<bar>q\<bar> < pow2 (floor_log2 q + 1)"
proof -
  obtain a b where ab: "quotient_of \<bar>q\<bar> = (a, b)" by (cases "quotient_of \<bar>q\<bar>")
  have b: "0 < b" using quotient_of_denom_pos [OF ab] .
  have q: "\<bar>q\<bar> = of_int a / of_int b" using quotient_of_div [OF ab] .
  have "0 < \<bar>q\<bar>" using assms by simp
  then have a: "0 < a" using b by (simp add: q zero_less_divide_iff)
  define d where "d = bitlen a - bitlen b"
  have fl: "floor_log2 q = (if pow2 d \<le> \<bar>q\<bar> then d else d - 1)"
    by (simp add: floor_log2_def ab d_def)
  have bpos: "(0::rat) < of_int b" using b by simp
  have "of_int a < pow2 (bitlen a)" using bitlen_pow2_bounds(2) [OF a] .
  also have "\<dots> = pow2 (d + 1) * pow2 (bitlen b - 1)" by (simp add: d_def flip: pow2_add)
  also have "\<dots> \<le> pow2 (d + 1) * of_int b"
    using bitlen_pow2_bounds(1) [OF b] pow2_pos [of "d + 1"] by simp
  finally have up: "\<bar>q\<bar> < pow2 (d + 1)"
    using bpos by (simp add: q pos_divide_less_eq)
  have "pow2 (d - 1) * of_int b \<le> pow2 (d - 1) * pow2 (bitlen b)"
    using bitlen_pow2_bounds(2) [OF b] pow2_pos [of "d - 1"] by simp
  also have "\<dots> = pow2 (bitlen a - 1)" by (simp add: d_def flip: pow2_add)
  also have "\<dots> \<le> of_int a" using bitlen_pow2_bounds(1) [OF a] .
  finally have lo: "pow2 (d - 1) \<le> \<bar>q\<bar>"
    using bpos by (simp add: q pos_le_divide_eq)
  show "pow2 (floor_log2 q) \<le> \<bar>q\<bar>" using lo by (simp add: fl)
  show "\<bar>q\<bar> < pow2 (floor_log2 q + 1)" using up by (auto simp: fl not_le)
qed

lemma floor_log2_unique:
  assumes "pow2 e \<le> \<bar>q\<bar>" and "\<bar>q\<bar> < pow2 (e + 1)"
  shows "floor_log2 q = e"
proof -
  have "q \<noteq> 0" using assms(1) pow2_pos [of e] by auto
  note b = floor_log2_bounds [OF this]
  have "pow2 e < pow2 (floor_log2 q + 1)" using assms(1) b(2) by simp
  then have "\<not> pow2 (floor_log2 q + 1) \<le> pow2 e" by simp
  then have 1: "\<not> floor_log2 q + 1 \<le> e" using pow2_le by blast
  have "pow2 (floor_log2 q) < pow2 (e + 1)" using assms(2) b(1) by simp
  then have "\<not> pow2 (e + 1) \<le> pow2 (floor_log2 q)" by simp
  then have 2: "\<not> e + 1 \<le> floor_log2 q" using pow2_le by blast
  from 1 2 show ?thesis by simp
qed


lemma round_half_even_near:
  assumes "\<bar>q - of_int m\<bar> < 1 / 2"
  shows "round_half_even q = m"
proof -
  define f where "f = \<lfloor>q\<rfloor>"
  have lo: "of_int f \<le> q" and hi: "q < of_int f + 1"
    using floor_correct [of q] by (simp_all add: f_def)
  have a1: "q - of_int m < 1 / 2" and a2: "of_int m - q < 1 / 2"
    using assms by linarith+
  have "(of_int m :: rat) < of_int f + 2" using a2 hi by linarith
  then have "(of_int m :: rat) < of_int (f + 2)" by simp
  then have m1: "m < f + 2" by (simp only: of_int_less_iff)
  have "(of_int f :: rat) - 1 < of_int m" using a1 lo by linarith
  then have "(of_int (f - 1) :: rat) < of_int m" by simp
  then have m2: "f - 1 < m" by (simp only: of_int_less_iff)
  from m1 m2 consider "m = f" | "m = f + 1" by linarith
  then show ?thesis
  proof cases
    case 1
    then have "q - of_int f < 1 / 2" using a1 by simp
    then show ?thesis unfolding round_half_even_def Let_def f_def [symmetric] 1 by simp
  next
    case 2
    then have "1 / 2 < q - of_int f" using a2 by simp
    then have "\<not> q - of_int f < 1 / 2" by simp
    then show ?thesis
      unfolding round_half_even_def Let_def f_def [symmetric] 2
      using \<open>1 / 2 < q - of_int f\<close> by simp
  qed
qed

lemma to_double_normal:
  assumes "pow2 e \<le> \<bar>q\<bar>" and "\<bar>q\<bar> < pow2 (e + 1)" and "- 1022 \<le> e"
    and "\<bar>q / pow2 (e - 52) - of_int m\<bar> < 1 / 2"
    and "\<bar>of_int m * pow2 (e - 52)\<bar> < 2 ^ 1024"
  shows "to_double q = Fin (of_int m * pow2 (e - 52))"
proof -
  have q: "q \<noteq> 0" using assms(1) pow2_pos [of e] by auto
  have fl: "floor_log2 q = e" using floor_log2_unique [OF assms(1,2)] .
  have p: "max (e - 52) (- 1074) = e - 52" using assms(3) by simp
  have r: "round_half_even (q / pow2 (e - 52)) = m" using round_half_even_near [OF assms(4)] .
  have hi: "\<not> 2 ^ 1024 \<le> of_int m * pow2 (e - 52)"
    and lw: "\<not> of_int m * pow2 (e - 52) \<le> - (2 ^ 1024)"
    using assms(5) by (simp_all only: abs_less_iff) linarith+
  show ?thesis
    using q hi lw by (simp only: to_double_def fl p r Let_def if_False)
qed


text \<open>Integers of magnitude up to \<open>2^53\<close> are doubles.\<close>

lemma round_half_even_of_int: "round_half_even (of_int k) = k"
  by (simp add: round_half_even_def)

lemma floor_log2_of_int:
  assumes "n \<noteq> 0"
  shows "floor_log2 (of_int n) = bitlen \<bar>n\<bar> - 1"
proof -
  have pos: "0 < \<bar>n\<bar>" using assms by simp
  have q: "quotient_of \<bar>of_int n :: rat\<bar> = (\<bar>n\<bar>, 1)"
  proof -
    have "\<bar>of_int n :: rat\<bar> = of_int \<bar>n\<bar>" by simp
    then show ?thesis by (simp only: quotient_of_rat_of_int)
  qed
  have b1: "bitlen 1 = 1" by (simp add: bitlen_alt_def)
  have ge: "1 \<le> bitlen \<bar>n\<bar>" using pos by (simp add: bitlen_alt_def)
  have "(2::int) ^ nat (bitlen \<bar>n\<bar> - 1) \<le> \<bar>n\<bar>" using bitlen_bounds [OF pos] by simp
  then have "(of_int ((2::int) ^ nat (bitlen \<bar>n\<bar> - 1)) :: rat) \<le> of_int \<bar>n\<bar>"
    by (simp only: of_int_le_iff)
  then have "pow2 (bitlen \<bar>n\<bar> - 1) \<le> \<bar>of_int n\<bar>"
    using ge by (simp add: pow2_def)
  then show ?thesis
    by (simp add: floor_log2_def q b1)
qed


lemma pow2_neg_exp: "k \<le> 0 \<Longrightarrow> pow2 k = 1 / 2 ^ nat (- k)"
  by (cases "k = 0") (simp_all add: pow2_def)

lemma scaled_int_roundtrip:
  assumes "k \<le> 0"
  shows "of_int (round_half_even (of_int n / pow2 k)) * pow2 k = (of_int n :: rat)"
proof -
  have "of_int n / pow2 k = (of_int (n * 2 ^ nat (- k)) :: rat)"
    using assms by (simp add: pow2_neg_exp)
  then have "round_half_even (of_int n / pow2 k) = n * 2 ^ nat (- k)"
    by (simp only: round_half_even_of_int)
  then show ?thesis using assms by (simp add: pow2_neg_exp)
qed

lemma top_int_roundtrip:
  assumes "\<bar>n\<bar> = 2 ^ 53"
  shows "of_int (round_half_even (of_int n / pow2 1)) * pow2 1 = (of_int n :: rat)"
proof -
  have "even \<bar>n\<bar>" by (simp add: assms)
  then have "even n" by simp
  then obtain m where m: "n = 2 * m" by (elim evenE)
  have "of_int n / pow2 1 = (of_int m :: rat)" by (simp add: m pow2_def)
  then have "round_half_even (of_int n / pow2 1) = m"
    by (simp only: round_half_even_of_int)
  then show ?thesis by (simp add: m pow2_def)
qed


lemma to_double_of_int:
  assumes "\<bar>n\<bar> \<le> 2 ^ 53"
  shows "to_double (of_int n) = Fin (of_int n)"
proof (cases "n = 0")
  case True
  then show ?thesis by (simp add: to_double_def)
next
  case False
  then have pos: "0 < \<bar>n\<bar>" by simp
  define d where "d = bitlen \<bar>n\<bar> - 1"
  have fl: "floor_log2 (of_int n) = d" using floor_log2_of_int [OF False] by (simp add: d_def)
  have d0: "0 \<le> d" using pos by (simp add: d_def bitlen_alt_def)
  have lo: "(2::int) ^ nat d \<le> \<bar>n\<bar>" using bitlen_bounds [OF pos] by (simp add: d_def)
  have "\<bar>n\<bar> < 2 ^ nat 54" using assms by simp
  then have "bitlen \<bar>n\<bar> \<le> 54" by (simp only: bitlen_le_iff_power) simp
  then have d53: "d \<le> 53" by (simp add: d_def)
  have p: "max (d - 52) (- 1074) = d - 52" using d0 by simp
  have r: "of_int (round_half_even (of_int n / pow2 (d - 52))) * pow2 (d - 52) = (of_int n :: rat)"
  proof (cases "d \<le> 52")
    case True
    then show ?thesis by (simp add: scaled_int_roundtrip)
  next
    case False
    then have d: "d = 53" using d53 by simp
    then have "\<bar>n\<bar> = 2 ^ 53" using lo assms by simp
    then show ?thesis using top_int_roundtrip [of n] by (simp add: d)
  qed
  have "\<bar>of_int n :: rat\<bar> = of_int \<bar>n\<bar>" by simp
  also have "\<dots> \<le> of_int (2 ^ 53)" using assms by (simp only: of_int_le_iff)
  finally have bound: "\<bar>of_int n :: rat\<bar> \<le> 2 ^ 53" by simp
  have "(2::rat) ^ 53 < 2 ^ 1024" by (simp only: power_strict_increasing_iff)
  then have hi: "\<not> (2 ^ 1024 \<le> (of_int n :: rat))"
    and lw: "\<not> ((of_int n :: rat) \<le> - (2 ^ 1024))"
    using bound by linarith+
  show ?thesis
    using False hi lw by (simp only: to_double_def fl p r Let_def of_int_eq_0_iff if_False)
qed


lemma toMutez_exact:
  assumes "x * 1000000 = of_int n" and "\<bar>n\<bar> \<le> 2 ^ 53"
  shows "toMutez (Fin x) = Fin (of_int n)"
proof (cases "x = 0")
  case True
  then have "n = 0" using assms(1) by simp
  then show ?thesis using True by (simp add: toMutez_def to_double_def)
next
  case False
  have "to_double (x * 1000000) = Fin (of_int n)"
    using to_double_of_int [OF assms(2)] by (simp only: assms(1))
  then show ?thesis
    using False by (simp add: toMutez_def)
qed

section \<open>Failure leaves the store as it was\<close>

text \<open>
  Claim C7. Whatever the action (create, get, accept, submit, dispute, deposit-prepare,
  deposit-confirm, release-prepare, release-confirm) and whatever its input, when the
  handler answers with an error of any status code, the store after the call is the
  store before it: every error return of a handler precedes its first assignment.
\<close>

theorem error_leaves_store_unchanged:
  "handle env a jobs = (Error c m, jobs') \<Longrightarrow> jobs' = jobs"
  by (cases a)
     (auto simp: handler_defs Let_def split: option.splits jsval.splits if_splits)

theorem error_leaves_store_unchanged_witness:
  "handle None (Submit ''j1'' ''t3'' ''t3'' (JStr ''tz1mallory'') (JStr ''ipfs://work''))
       (snd (run None [ex_create, ex_accept] Map.empty))
     = (Error 403 ''Only assigned freelancer can submit'',
        snd (run None [ex_create, ex_accept] Map.empty))"
proof -
  have "fst (handle None (Submit ''j1'' ''t3'' ''t3'' (JStr ''tz1mallory'') (JStr ''ipfs://work''))
          (snd (run None [ex_create, ex_accept] Map.empty)))
        = Error 403 ''Only assigned freelancer can submit''"
    by (simp add: handler_defs Let_def js_or_def)
  then show ?thesis
    using error_leaves_store_unchanged
      [of None "Submit ''j1'' ''t3'' ''t3'' (JStr ''tz1mallory'') (JStr ''ipfs://work'')"
          "snd (run None [ex_create, ex_accept] Map.empty)"
          403 "''Only assigned freelancer can submit''"
          "snd (handle None (Submit ''j1'' ''t3'' ''t3'' (JStr ''tz1mallory'') (JStr ''ipfs://work''))
                 (snd (run None [ex_create, ex_accept] Map.empty)))"]
    by (metis prod.collapse)
qed

section \<open>Preparing a deposit\<close>

text \<open>
  Claim C9. Preparing a deposit is repeatable and changes nothing: whatever the job
  identifier, the arguments and the store, the call leaves the store as it was, and a
  second call with the same arguments returns the same response (the same unsigned
  instructions, or the same error) and again leaves the store as it was.
\<close>

theorem deposit_prepare_idempotent:
  "deposit_prepare env jid fromPkh amountTez jobs = (r, jobs') \<Longrightarrow>
     jobs' = jobs \<and> deposit_prepare env jid fromPkh amountTez jobs' = (r, jobs)"
  by (auto simp: deposit_prepare_def Let_def split: option.splits jsval.splits if_splits)

theorem deposit_prepare_idempotent_witness:
  "deposit_prepare (Some ''tz1escrow'') ''j1'' (JStr ''tz1client'') (JNum (Fin 10))
       (snd (handle None ex_create Map.empty))
     = (OperationDetails
          [\<lparr> kind = ''transaction'', destination = JStr ''tz1escrow'',
             amount = JNum (Fin 10000000) \<rparr>],
        snd (handle None ex_create Map.empty))
   \<and> deposit_prepare (Some ''tz1escrow'') ''j1'' (JStr ''tz1client'') (JNum (Fin 10))
       (snd (deposit_prepare (Some ''tz1escrow'') ''j1'' (JStr ''tz1client'') (JNum (Fin 10))
              (snd (handle None ex_create Map.empty))))
     = (OperationDetails
          [\<lparr> kind = ''transaction'', destination = JStr ''tz1escrow'',
             amount = JNum (Fin 10000000) \<rparr>],
        snd (handle None ex_create Map.empty))"
proof -
  have m10: "toMutez (Fin 10) = Fin 10000000"
    using toMutez_exact [of 10 10000000] by simp
  have p10: "deposit_prepare (Some ''tz1escrow'') ''j1'' (JStr ''tz1client'') (JNum (Fin 10))
       (snd (handle None ex_create Map.empty))
     = (OperationDetails
          [\<lparr> kind = ''transaction'', destination = JStr ''tz1escrow'',
             amount = JNum (Fin 10000000) \<rparr>],
        snd (handle None ex_create Map.empty))"
    by (simp add: deposit_prepare_def create_job_def Let_def m10)
  show ?thesis
    using deposit_prepare_idempotent [OF p10] p10 by simp
qed

text \<open>
  Claim C5, amended. Called on a stored job with an identity strictly equal to its
  \<open>clientAddress\<close> and a number \<open>x\<close> as amount, deposit-prepare answers with exactly one
  instruction of kind \<open>transaction\<close> (not \<open>transfer\<close>) whose destination is the configured
  escrow address and whose amount is \<open>toMutez x\<close>, that is \<^verbatim>\<open>Math.round\<close> of the double
  product of \<open>x\<close> and \<open>10^6\<close>; when the escrow address is undefined or empty it answers
  with status 400 and the message that the address is not configured. Neither answer
  changes the store. Whenever the exact product of \<open>x\<close> and \<open>10^6\<close> is an integer of
  magnitude at most \<open>2^53\<close>, the amount is that integer.
\<close>

theorem deposit_prepare_instruction:
  assumes "jobs jid = Some j" and "strict_eq (clientAddress j) fromPkh" and "truthy fromPkh"
  shows "(a \<noteq> [] \<longrightarrow>
            deposit_prepare (Some a) jid fromPkh (JNum x) jobs
              = (OperationDetails
                   [\<lparr> kind = ''transaction'', destination = JStr a,
                      amount = JNum (toMutez x) \<rparr>], jobs))
         \<and> deposit_prepare (Some []) jid fromPkh (JNum x) jobs
              = (Error 400 ''ESCROW_ADDRESS not configured on server (.env)'', jobs)
         \<and> deposit_prepare None jid fromPkh (JNum x) jobs
              = (Error 400 ''ESCROW_ADDRESS not configured on server (.env)'', jobs)
         \<and> (\<forall>q n. x = Fin q \<longrightarrow> q * 1000000 = of_int n \<longrightarrow> \<bar>n\<bar> \<le> 2 ^ 53
                \<longrightarrow> toMutez x = Fin (of_int n))"
  using assms by (simp add: deposit_prepare_def Let_def toMutez_exact)

theorem deposit_prepare_instruction_witness:
  "deposit_prepare (Some ''tz1escrow'') ''j1'' (JStr ''tz1client'') (JNum (Fin 10))
       (snd (handle None ex_create Map.empty))
     = (OperationDetails
          [\<lparr> kind = ''transaction'', destination = JStr ''tz1escrow'',
             amount = JNum (Fin 10000000) \<rparr>],
        snd (handle None ex_create Map.empty))
   \<and> deposit_prepare None ''j1'' (JStr ''tz1client'') (JNum (Fin 10))
       (snd (handle None ex_create Map.empty))
     = (Error 400 ''ESCROW_ADDRESS not configured on server (.env)'',
        snd (handle None ex_create Map.empty))"
proof -
  have j: "snd (handle None ex_create Map.empty) ''j1''
             = Some (the (snd (handle None ex_create Map.empty) ''j1''))"
    by (simp add: create_job_def Let_def)
  have c: "strict_eq (clientAddress (the (snd (handle None ex_create Map.empty) ''j1'')))
             (JStr ''tz1client'')"
    by (simp add: create_job_def Let_def)
  have t: "truthy (JStr ''tz1client'')" by simp
  have m: "toMutez (Fin 10) = Fin 10000000"
    using toMutez_exact [of 10 10000000] by simp
  show ?thesis
    using deposit_prepare_instruction
      [of "snd (handle None ex_create Map.empty)" "''j1''"
          "the (snd (handle None ex_create Map.empty) ''j1'')" "JStr ''tz1client''"
          "''tz1escrow''" "Fin 10", OF j c t]
    by (simp only: m) simp
qed

text \<open>
  The claim as it was stated fails on the kind, which is \<open>transaction\<close>, and on the
  amount: for the double nearest to \<open>5 \<times> 10^-7\<close>, which lies below it, the double
  product with \<open>10^6\<close> is \<open>1/2\<close> and the amount is 1, while the exact product is less
  than \<open>1/2\<close> and its nearest integer is 0.
\<close>

theorem deposit_prepare_instruction_counterexample:
  "deposit_prepare (Some ''tz1escrow'') ''j1'' (JStr ''tz1client'') (JNum (Fin 10))
       (snd (handle None ex_create Map.empty))
     = (OperationDetails
          [\<lparr> kind = ''transaction'', destination = JStr ''tz1escrow'',
             amount = JNum (Fin 10000000) \<rparr>],
        snd (handle None ex_create Map.empty))
   \<and> ''transaction'' \<noteq> ''transfer''
   \<and> is_double (4722366482869645 / 2 ^ 73)
   \<and> deposit_prepare (Some ''tz1escrow'') ''j1'' (JStr ''tz1client'')
         (JNum (Fin (4722366482869645 / 2 ^ 73))) (snd (handle None ex_create Map.empty))
     = (OperationDetails
          [\<lparr> kind = ''transaction'', destination = JStr ''tz1escrow'',
             amount = JNum (Fin 1) \<rparr>],
        snd (handle None ex_create Map.empty))
   \<and> round ((4722366482869645 / 2 ^ 73 :: rat) * 1000000) = 0"
proof -
  have m10: "toMutez (Fin 10) = Fin 10000000"
    using toMutez_exact [of 10 10000000] by simp
  have d1: "to_double (4722366482869645 / 2 ^ 73) = Fin (4722366482869645 / 2 ^ 73)"
    using to_double_normal [of "- 21" "4722366482869645 / 2 ^ 73" 4722366482869645]
    by (simp add: pow2_def)
  have d2: "to_double (4722366482869645 / 2 ^ 73 * 1000000) = Fin (1 / 2)"
    using to_double_normal [of "- 2" "4722366482869645 / 2 ^ 73 * 1000000" "2 ^ 53"]
    by (simp add: pow2_def)
  have m5: "toMutez (Fin (4722366482869645 / 2 ^ 73)) = Fin 1"
    using d2 round_unique [of "1 / 2 :: rat" 1] by (simp add: toMutez_def)
  have r5: "round ((4722366482869645 / 2 ^ 73 :: rat) * 1000000) = 0"
    by (rule round_unique) simp_all
  have p10: "deposit_prepare (Some ''tz1escrow'') ''j1'' (JStr ''tz1client'') (JNum (Fin 10))
       (snd (handle None ex_create Map.empty))
     = (OperationDetails
          [\<lparr> kind = ''transaction'', destination = JStr ''tz1escrow'',
             amount = JNum (Fin 10000000) \<rparr>],
        snd (handle None ex_create Map.empty))"
    by (simp add: deposit_prepare_def create_job_def Let_def m10)
  have p5: "deposit_prepare (Some ''tz1escrow'') ''j1'' (JStr ''tz1client'')
         (JNum (Fin (4722366482869645 / 2 ^ 73))) (snd (handle None ex_create Map.empty))
     = (OperationDetails
          [\<lparr> kind = ''transaction'', destination = JStr ''tz1escrow'',
             amount = JNum (Fin 1) \<rparr>],
        snd (handle None ex_create Map.empty))"
    using m5 by (simp add: deposit_prepare_def create_job_def Let_def)
  have k: "''transaction'' \<noteq> ''transfer''" by simp
  have dbl: "is_double (4722366482869645 / 2 ^ 73)"
    unfolding is_double_def by (rule d1)
  from p10 k dbl p5 r5 show ?thesis by (intro conjI)
qed

section \<open>Confirmations without a status guard\<close>

text \<open>
  Claim C1. The status of a job is meant to move along the edges accept
  \<open>OPEN \<rightarrow> ACCEPTED\<close>, deposit-confirm \<open>ACCEPTED \<rightarrow> FUNDED\<close>, submit
  \<open>{ACCEPTED, FUNDED} \<rightarrow> SUBMITTED\<close>, release-confirm \<open>{SUBMITTED, FUNDED} \<rightarrow> RELEASED\<close>
  and dispute to \<open>DISPUTED\<close> only. The handlers of deposit-confirm and release-confirm
  do not look at the status: on a job that was just opened, a deposit confirmation by
  the client moves it from \<open>OPEN\<close> to \<open>FUNDED\<close>, and a release confirmation moves it from
  \<open>OPEN\<close> to \<open>RELEASED\<close>.
\<close>

theorem confirm_moves_status_off_the_table:
  "map_option status (snd (run None [ex_create] Map.empty) ''j1'') = Some OPEN
   \<and> map_option status (snd (run None [ex_create, ex_deposit_confirm] Map.empty) ''j1'')
       = Some FUNDED
   \<and> map_option status (snd (run None [ex_create, ex_release_confirm] Map.empty) ''j1'')
       = Some RELEASED"
  by (simp add: handler_defs Let_def js_or_def)

text \<open>
  Claim C2. A deposit confirmation is meant to succeed on an \<open>ACCEPTED\<close> job only and to
  fail otherwise, leaving the job as it was. On the job \<open>j1\<close>, still \<open>OPEN\<close>, the
  confirmation by the client is answered with the updated job, not with an error, and
  the stored job is \<open>FUNDED\<close> with the full amount recorded as deposited.
\<close>

theorem deposit_confirm_on_open_job_succeeds:
  "map_option status (snd (handle None ex_create Map.empty) ''j1'') = Some OPEN
   \<and> \<not> is_error (fst (handle None ex_deposit_confirm (snd (handle None ex_create Map.empty))))
   \<and> map_option status
        (snd (handle None ex_deposit_confirm (snd (handle None ex_create Map.empty))) ''j1'')
       = Some FUNDED
   \<and> map_option escrow
        (snd (handle None ex_deposit_confirm (snd (handle None ex_create Map.empty))) ''j1'')
       = Some \<lparr> deposited = Fin 5000000, opHashes = [JStr ''op1''] \<rparr>"
  by (simp add: handler_defs Let_def js_or_def)

text \<open>
  Claim C4. A job whose status is \<open>ACCEPTED\<close>, \<open>FUNDED\<close>, \<open>SUBMITTED\<close> or \<open>RELEASED\<close> is
  meant to have a freelancer. After the client confirms a deposit on the job \<open>j1\<close> that
  nobody has accepted, the job is \<open>FUNDED\<close> and its \<open>freelancerAddress\<close> is still
  \<open>null\<close>; after a release confirmation instead, it is \<open>RELEASED\<close> with no freelancer.
\<close>

theorem funded_job_without_freelancer:
  "map_option (\<lambda>j. (status j, freelancerAddress j))
       (snd (run None [ex_create, ex_deposit_confirm] Map.empty) ''j1'')
     = Some (FUNDED, JNull)
   \<and> map_option (\<lambda>j. (status j, freelancerAddress j))
       (snd (run None [ex_create, ex_release_confirm] Map.empty) ''j1'')
     = Some (RELEASED, JNull)"
  by (simp add: handler_defs Let_def js_or_def)

section \<open>Disputes\<close>

text \<open>
  Claim C6. A dispute is meant to be open to the client and the assigned freelancer of
  the job only. The handler compares the caller with neither: on the job \<open>j1\<close> of the
  client \<open>tz1client\<close>, accepted by \<open>tz1worker\<close>, a dispute raised by \<open>tz1mallory\<close> is
  answered with the updated job, and the stored job is \<open>DISPUTED\<close>.
\<close>

theorem dispute_by_stranger_succeeds:
  "map_option (\<lambda>j. (clientAddress j, freelancerAddress j, status j))
       (snd (run None [ex_create, ex_accept] Map.empty) ''j1'')
     = Some (JStr ''tz1client'', JStr ''tz1worker'', ACCEPTED)
   \<and> \<not> is_error
         (fst (handle None (Dispute ''j1'' ''t5'' ''t5'' (JStr ''tz1mallory'') (JStr ''late''))
                (snd (run None [ex_create, ex_accept] Map.empty))))
   \<and> map_option (\<lambda>j. (status j, map_option dispute_by (dispute j)))
       (snd (handle None (Dispute ''j1'' ''t5'' ''t5'' (JStr ''tz1mallory'') (JStr ''late''))
              (snd (run None [ex_create, ex_accept] Map.empty))) ''j1'')
     = Some (DISPUTED, Some (JStr ''tz1mallory''))"
  by (simp add: handler_defs Let_def js_or_def)

section \<open>The release record\<close>

lemma handle_release_inv:
  assumes "\<And>j. jobs jid = Some j \<Longrightarrow> status j = RELEASED \<Longrightarrow> release j \<noteq> None"
    and "snd (handle env a jobs) jid = Some j'" and "status j' = RELEASED"
  shows "release j' \<noteq> None"
  using assms
  by (cases a)
     (auto simp: handler_defs Let_def split: option.splits jsval.splits if_splits)

lemma run_release_inv:
  assumes "\<And>j. jobs jid = Some j \<Longrightarrow> status j = RELEASED \<Longrightarrow> release j \<noteq> None"
    and "snd (run env as jobs) jid = Some j'" and "status j' = RELEASED"
  shows "release j' \<noteq> None"
  using assms
proof (induction as arbitrary: jobs)
  case Nil
  then show ?case by simp
next
  case (Cons a as)
  have step: "\<And>j. snd (handle env a jobs) jid = Some j \<Longrightarrow> status j = RELEASED
                \<Longrightarrow> release j \<noteq> None"
    using handle_release_inv [of jobs jid env a] Cons.prems(1) by blast
  show ?case
    using Cons.IH [of "snd (handle env a jobs)", OF step] Cons.prems(2,3)
    by (simp add: case_prod_unfold Let_def)
qed

text \<open>
  Claim C3, amended. In every store reached from the empty store by a run of requests,
  a job whose status is \<open>RELEASED\<close> has a release record. (The converse is not claimed:
  a dispute on a released job sets the status to \<open>DISPUTED\<close> and keeps the record.)
\<close>

theorem released_job_has_release:
  "snd (run env as Map.empty) jid = Some j \<Longrightarrow> status j = RELEASED \<Longrightarrow> release j \<noteq> None"
  using run_release_inv [of Map.empty jid env as j] by simp

theorem released_job_has_release_witness:
  "snd (run None [ex_create, ex_accept, ex_deposit_confirm, ex_submit, ex_release_confirm]
          Map.empty) ''j1'' \<noteq> None
   \<and> status (the (snd (run None
          [ex_create, ex_accept, ex_deposit_confirm, ex_submit, ex_release_confirm]
          Map.empty) ''j1'')) = RELEASED
   \<and> release (the (snd (run None
          [ex_create, ex_accept, ex_deposit_confirm, ex_submit, ex_release_confirm]
          Map.empty) ''j1'')) \<noteq> None"
proof -
  let ?s = "snd (run None [ex_create, ex_accept, ex_deposit_confirm, ex_submit,
                           ex_release_confirm] Map.empty)"
  have n: "?s ''j1'' \<noteq> None"
    by (simp add: handler_defs Let_def js_or_def)
  have a: "?s ''j1'' = Some (the (?s ''j1''))"
    using option.collapse [OF n] by (rule sym)
  have b: "status (the (?s ''j1'')) = RELEASED"
    by (simp add: handler_defs Let_def js_or_def)
  have c: "release (the (?s ''j1'')) \<noteq> None"
    by (rule released_job_has_release [OF a b])
  from n b c show ?thesis by (intro conjI)
qed

text \<open>
  The equivalence of the claim as it was stated fails along the edges of the transition
  table themselves: after the whole path from creation to release, the client disputes
  the job; the status is then \<open>DISPUTED\<close> and the release record is still there.
\<close>

theorem release_iff_released_counterexample:
  "snd (run None [ex_create, ex_accept, ex_deposit_confirm, ex_submit, ex_release_confirm,
                  Dispute ''j1'' ''t5'' ''t5'' (JStr ''tz1client'') (JStr ''late'')]
          Map.empty) ''j1'' \<noteq> None
   \<and> \<not> (release (the (snd (run None
             [ex_create, ex_accept, ex_deposit_confirm, ex_submit, ex_release_confirm,
              Dispute ''j1'' ''t5'' ''t5'' (JStr ''tz1client'') (JStr ''late'')]
             Map.empty) ''j1'')) \<noteq> None
          \<longleftrightarrow> status (the (snd (run None
             [ex_create, ex_accept, ex_deposit_confirm, ex_submit, ex_release_confirm,
              Dispute ''j1'' ''t5'' ''t5'' (JStr ''tz1client'') (JStr ''late'')]
             Map.empty) ''j1'')) = RELEASED)"
  by (simp add: handler_defs Let_def js_or_def)

section \<open>The deposited amount\<close>

lemma handle_deposit_ok:
  assumes "\<And>j. jobs jid = Some j \<Longrightarrow> deposit_ok n j"
    and "handle env a jobs = (r, jobs')"
    and "jobs' jid = Some j'"
  shows "deposit_ok (count_step jid a r n) j'"
  using assms
  by (cases a)
     (auto simp: handler_defs Let_def deposit_ok_def split: option.splits jsval.splits if_splits)

lemma run_deposit_ok:
  assumes "\<And>j. jobs jid = Some j \<Longrightarrow> deposit_ok n j"
    and "run env as jobs = (rs, jobs')"
    and "jobs' jid = Some j'"
  shows "deposit_ok (confirmed_from jid as rs n) j'"
  using assms
proof (induction as arbitrary: jobs n rs)
  case Nil
  then show ?case by simp
next
  case (Cons a as)
  obtain r jobs1 where h: "handle env a jobs = (r, jobs1)" by (cases "handle env a jobs")
  obtain rs1 where t: "run env as jobs1 = (rs1, jobs')" and eq: "rs = r # rs1"
    using Cons.prems(2) h by (cases "run env as jobs1") simp
  have step: "\<And>j. jobs1 jid = Some j \<Longrightarrow> deposit_ok (count_step jid a r n) j"
    using handle_deposit_ok [OF Cons.prems(1) h] by blast
  have "deposit_ok (confirmed_from jid as rs1 (count_step jid a r n)) j'"
    using Cons.IH [OF step t Cons.prems(3)] .
  then show ?case using eq by simp
qed

text \<open>
  Claim C10, amended. In every store reached from the empty store by a run of requests,
  the \<open>opHashes\<close> of a job hold exactly one entry for each deposit confirmation that
  succeeded on it, and \<open>deposited\<close> is 0 as long as none has succeeded and the job's
  \<open>amountMutez\<close> once one has, however many succeeded: it is never a sum of amounts. So
  \<open>deposited\<close> is 0 or the amount, and for a job whose amount is not 0 it is the amount
  exactly when at least one deposit confirmation has succeeded.
\<close>

theorem deposited_is_zero_or_amount:
  assumes "run env as Map.empty = (rs, jobs)" and "jobs jid = Some j"
  shows "length (opHashes (escrow j)) = confirmed_deposits jid as rs
         \<and> deposited (escrow j)
             = (if confirmed_deposits jid as rs = 0 then Fin 0 else amountMutez j)
         \<and> (deposited (escrow j) = Fin 0 \<or> deposited (escrow j) = amountMutez j)
         \<and> (amountMutez j \<noteq> Fin 0 \<longrightarrow>
               (deposited (escrow j) = amountMutez j \<longleftrightarrow> 0 < confirmed_deposits jid as rs))"
proof -
  have "deposit_ok (confirmed_from jid as rs 0) j"
    using run_deposit_ok [of Map.empty jid 0 env as rs jobs j] assms by simp
  then show ?thesis
    by (auto simp: deposit_ok_def confirmed_deposits_def)
qed

theorem deposited_is_zero_or_amount_witness:
  "confirmed_deposits ''j1''
       [ex_create, ex_accept, ex_deposit_confirm,
        DepositConfirm ''j1'' ''t3'' (JStr ''tz1client'') (JStr ''op1b'')]
       (fst (run None [ex_create, ex_accept, ex_deposit_confirm,
                       DepositConfirm ''j1'' ''t3'' (JStr ''tz1client'') (JStr ''op1b'')]
               Map.empty)) = 2
   \<and> escrow (the (snd (run None [ex_create, ex_accept, ex_deposit_confirm,
                       DepositConfirm ''j1'' ''t3'' (JStr ''tz1client'') (JStr ''op1b'')]
               Map.empty) ''j1''))
       = \<lparr> deposited = Fin 5000000, opHashes = [JStr ''op1'', JStr ''op1b''] \<rparr>"
proof -
  let ?as = "[ex_create, ex_accept, ex_deposit_confirm,
              DepositConfirm ''j1'' ''t3'' (JStr ''tz1client'') (JStr ''op1b'')]"
  have r: "run None ?as Map.empty = (fst (run None ?as Map.empty), snd (run None ?as Map.empty))"
    by simp
  have n: "snd (run None ?as Map.empty) ''j1'' \<noteq> None"
    by (simp add: handler_defs Let_def js_or_def)
  have j: "snd (run None ?as Map.empty) ''j1'' = Some (the (snd (run None ?as Map.empty) ''j1''))"
    using option.collapse [OF n] by (rule sym)
  have c: "confirmed_deposits ''j1'' ?as (fst (run None ?as Map.empty)) = 2"
    by (simp add: handler_defs Let_def js_or_def confirmed_deposits_def)
  have h: "opHashes (escrow (the (snd (run None ?as Map.empty) ''j1'')))
             = [JStr ''op1'', JStr ''op1b'']"
    by (simp add: handler_defs Let_def js_or_def)
  have a: "amountMutez (the (snd (run None ?as Map.empty) ''j1'')) = Fin 5000000"
    by (simp add: handler_defs Let_def js_or_def)
  have d: "deposited (escrow (the (snd (run None ?as Map.empty) ''j1''))) = Fin 5000000"
    using deposited_is_zero_or_amount [OF r j] by (simp only: c a) simp
  have "escrow (the (snd (run None ?as Map.empty) ''j1''))
          = \<lparr> deposited = Fin 5000000, opHashes = [JStr ''op1'', JStr ''op1b''] \<rparr>"
    using d h by (cases "escrow (the (snd (run None ?as Map.empty) ''j1''))") simp
  with c show ?thesis by (intro conjI)
qed

text \<open>
  The equivalence of the claim as it was stated fails for a job opened with the amount
  0: right after its creation, with no deposit confirmed, \<open>deposited\<close> already equals
  the amount.
\<close>

theorem deposited_equals_amount_counterexample:
  "snd (run None [Create ''j0'' ''t0'' ''t0'' (JStr ''Logo'') (JNum (Fin 0))
                    (JStr ''tz1client'') JUndefined] Map.empty) ''j0'' \<noteq> None
   \<and> deposited (escrow (the (snd (run None
         [Create ''j0'' ''t0'' ''t0'' (JStr ''Logo'') (JNum (Fin 0))
            (JStr ''tz1client'') JUndefined] Map.empty) ''j0'')))
       = amountMutez (the (snd (run None
         [Create ''j0'' ''t0'' ''t0'' (JStr ''Logo'') (JNum (Fin 0))
            (JStr ''tz1client'') JUndefined] Map.empty) ''j0''))
   \<and> confirmed_deposits ''j0''
         [Create ''j0'' ''t0'' ''t0'' (JStr ''Logo'') (JNum (Fin 0))
            (JStr ''tz1client'') JUndefined]
         (fst (run None [Create ''j0'' ''t0'' ''t0'' (JStr ''Logo'') (JNum (Fin 0))
                 (JStr ''tz1client'') JUndefined] Map.empty)) = 0"
  by (simp add: handler_defs Let_def js_or_def confirmed_deposits_def)

section \<open>From creation to release\<close>

text \<open>
  Claim C8. Starting from any store and with any identifier for the new job: a creation
  with a title, a numeric amount and a client; an acceptance by a freelancer; a
  deposit-prepare and a deposit-confirm, a release-prepare and a release-confirm, each
  called with an identity strictly equal to the client, and a submit called with an
  identity strictly equal to the freelancer; every required field present and the escrow
  address configured. Every one of the seven requests is answered without an error, and
  the job ends \<open>RELEASED\<close> with the \<open>opHash\<close> of its release record equal to the one
  passed to the release confirmation.
\<close>

theorem happy_path_ends_released:
  assumes "truthy title'" and "truthy client" and "truthy freelancer"
    and "truthy work" and "truthy ref1" and "truthy ref2"
    and "strict_eq client c1" and "strict_eq client c2"
    and "strict_eq client c3" and "strict_eq client c4"
    and "strict_eq freelancer f1"
    and "escrow_address \<noteq> []"
  shows "\<exists>j1 j2 i3 j4 j5 i6 j7 jobs'.
           run (Some escrow_address)
             [Create jid t0 t0' title' (JNum n) client descr,
              Accept jid t1 freelancer,
              DepositPrepare jid c1 (JNum x),
              DepositConfirm jid t2 c2 ref1,
              Submit jid t3 t3' f1 work,
              ReleasePrepare jid c3,
              ReleaseConfirm jid t4 t4' c4 ref2] jobs
             = ([Created jid j1, Ok j2, OperationDetails i3, Ok j4, Ok j5,
                 OperationDetails i6, Ok j7], jobs')
           \<and> jobs' jid = Some j7
           \<and> status j7 = RELEASED
           \<and> map_option opHash (release j7) = Some ref2"
proof -
  have eqs: "c1 = client" "c2 = client" "c3 = client" "c4 = client" "f1 = freelancer"
    using assms(7-11) by (auto dest: strict_eq_imp_eq)
  have refl: "strict_eq client client" "strict_eq freelancer freelancer"
    using assms(7,11) eqs by simp_all
  show ?thesis
    using assms(1-6,12) refl
    by (simp add: eqs handler_defs Let_def)
qed

theorem happy_path_ends_released_witness:
  "\<exists>j1 j2 i3 j4 j5 i6 j7 jobs'.
     run (Some ''tz1escrow'')
       [ex_create, ex_accept,
        DepositPrepare ''j1'' (JStr ''tz1client'') (JNum (Fin 5)),
        ex_deposit_confirm, ex_submit,
        ReleasePrepare ''j1'' (JStr ''tz1client''),
        ex_release_confirm] Map.empty
       = ([Created ''j1'' j1, Ok j2, OperationDetails i3, Ok j4, Ok j5,
           OperationDetails i6, Ok j7], jobs')
     \<and> jobs' ''j1'' = Some j7
     \<and> status j7 = RELEASED
     \<and> map_option opHash (release j7) = Some (JStr ''op2'')"
  using happy_path_ends_released
    [of "JStr ''Logo''" "JStr ''tz1client''" "JStr ''tz1worker''" "JStr ''ipfs://work''"
        "JStr ''op1''" "JStr ''op2''" "JStr ''tz1client''" "JStr ''tz1client''"
        "JStr ''tz1client''" "JStr ''tz1client''" "JStr ''tz1worker''" "''tz1escrow''"
        "''j1''" "''t0''" "''t0''" "Fin 5000000" JUndefined "''t1''" "Fin 5" "''t2''"
        "''t3''" "''t3''" "''t4''" "''t4''" Map.empty]
  by simp

end
